theory Spec2Isabelle
  imports Complex_Main
begin

section \<open>Linear algebra used by the collision objects\<close>

text \<open>
  The scalar type \<^verbatim>\<open>FCL_REAL\<close> is modelled by \<^typ>\<open>real\<close>: the statements below are
  about the formulas the code evaluates, not about the rounding of a particular
  floating-point format. \<^verbatim>\<open>Vector3d\<close> is a triple of scalars and \<^verbatim>\<open>Matrix3d\<close> a triple
  of rows.
\<close>

type_synonym FCL_REAL = real

type_synonym Vector3d = "FCL_REAL \<times> FCL_REAL \<times> FCL_REAL"

type_synonym Matrix3d = "Vector3d \<times> Vector3d \<times> Vector3d"

text \<open>\<^verbatim>\<open>v[i]\<close>: the code only uses the literal indices 0, 1 and 2.\<close>

fun vcoeff :: "Vector3d \<Rightarrow> nat \<Rightarrow> FCL_REAL" where
  "vcoeff (x, y, z) i = (if i = 0 then x else if i = 1 then y else z)"

text \<open>\<^verbatim>\<open>M(i, j)\<close>: row \<open>i\<close>, column \<open>j\<close>.\<close>

fun coeff :: "Matrix3d \<Rightarrow> nat \<Rightarrow> nat \<Rightarrow> FCL_REAL" where
  "coeff (r0, r1, r2) i j = vcoeff (if i = 0 then r0 else if i = 1 then r1 else r2) j"

definition Zero3 :: Vector3d where
  "Zero3 = (0, 0, 0)"

definition Constant3 :: "FCL_REAL \<Rightarrow> Vector3d" where
  "Constant3 c = (c, c, c)"

definition MatrixZero :: Matrix3d where
  "MatrixZero = (Zero3, Zero3, Zero3)"

definition MatrixIdentity :: Matrix3d where
  "MatrixIdentity = ((1, 0, 0), (0, 1, 0), (0, 0, 1))"

fun vadd :: "Vector3d \<Rightarrow> Vector3d \<Rightarrow> Vector3d" where
  "vadd (a, b, c) (x, y, z) = (a + x, b + y, c + z)"

fun vsub :: "Vector3d \<Rightarrow> Vector3d \<Rightarrow> Vector3d" where
  "vsub (a, b, c) (x, y, z) = (a - x, b - y, c - z)"

fun vneg :: "Vector3d \<Rightarrow> Vector3d" where
  "vneg (x, y, z) = (- x, - y, - z)"

fun vscale :: "Vector3d \<Rightarrow> FCL_REAL \<Rightarrow> Vector3d" where
  "vscale (x, y, z) s = (x * s, y * s, z * s)"

fun vdiv :: "Vector3d \<Rightarrow> FCL_REAL \<Rightarrow> Vector3d" where
  "vdiv (x, y, z) s = (x / s, y / s, z / s)"

fun dot :: "Vector3d \<Rightarrow> Vector3d \<Rightarrow> FCL_REAL" where
  "dot (a, b, c) (x, y, z) = a * x + b * y + c * z"

definition norm3 :: "Vector3d \<Rightarrow> FCL_REAL" where
  "norm3 v = sqrt (dot v v)"

fun mat_vec :: "Matrix3d \<Rightarrow> Vector3d \<Rightarrow> Vector3d" where
  "mat_vec (r0, r1, r2) v = (dot r0 v, dot r1 v, dot r2 v)"

fun mat_transpose :: "Matrix3d \<Rightarrow> Matrix3d" where
  "mat_transpose ((a, b, c), (d, e, f), (g, h, i)) = ((a, d, g), (b, e, h), (c, f, i))"

fun mat_mul :: "Matrix3d \<Rightarrow> Matrix3d \<Rightarrow> Matrix3d" where
  "mat_mul (r0, r1, r2) B =
     (mat_vec (mat_transpose B) r0, mat_vec (mat_transpose B) r1, mat_vec (mat_transpose B) r2)"

text \<open>A matrix whose columns are orthonormal, as the rotation part of a rigid transform.\<close>

definition orthogonal :: "Matrix3d \<Rightarrow> bool" where
  "orthogonal R = (mat_mul (mat_transpose R) R = MatrixIdentity)"

text \<open>
  The fuzzy comparisons of the linear-algebra library (Eigen), which is not under
  \<^verbatim>\<open>src/\<close>. \<^verbatim>\<open>M.isIdentity(prec)\<close> walks over the entries and returns false at the first
  diagonal entry that is not \<^verbatim>\<open>isApprox(M(i, i), 1, prec)\<close> and at the first off-diagonal
  entry that is not \<^verbatim>\<open>isMuchSmallerThan(M(i, j), 1, prec)\<close>, where for scalars
  \<^verbatim>\<open>isApprox(x, y, prec)\<close> is \<open>\<bar>x - y\<bar> \<le> min \<bar>x\<bar> \<bar>y\<bar> * prec\<close> and
  \<^verbatim>\<open>isMuchSmallerThan(x, y, prec)\<close> is \<open>\<bar>x\<bar> \<le> \<bar>y\<bar> * prec\<close>. The code calls \<^verbatim>\<open>isIdentity()\<close>
  without an argument: the precision is the library's default for \<^verbatim>\<open>double\<close>,
  \<open>10\<^sup>-\<^sup>1\<^sup>2\<close>.
\<close>

definition dummy_precision :: FCL_REAL where
  "dummy_precision = 1 / 10 ^ 12"

definition isApprox :: "FCL_REAL \<Rightarrow> FCL_REAL \<Rightarrow> FCL_REAL \<Rightarrow> bool" where
  "isApprox x y prec = (\<bar>x - y\<bar> \<le> min \<bar>x\<bar> \<bar>y\<bar> * prec)"

definition isMuchSmallerThan :: "FCL_REAL \<Rightarrow> FCL_REAL \<Rightarrow> FCL_REAL \<Rightarrow> bool" where
  "isMuchSmallerThan x y prec = (\<bar>x\<bar> \<le> \<bar>y\<bar> * prec)"

definition isIdentity_prec :: "Matrix3d \<Rightarrow> FCL_REAL \<Rightarrow> bool" where
  "isIdentity_prec M prec =
     (isApprox (coeff M 0 0) 1 prec
      \<and> isMuchSmallerThan (coeff M 1 0) 1 prec
      \<and> isMuchSmallerThan (coeff M 2 0) 1 prec
      \<and> isMuchSmallerThan (coeff M 0 1) 1 prec
      \<and> isApprox (coeff M 1 1) 1 prec
      \<and> isMuchSmallerThan (coeff M 2 1) 1 prec
      \<and> isMuchSmallerThan (coeff M 0 2) 1 prec
      \<and> isMuchSmallerThan (coeff M 1 2) 1 prec
      \<and> isApprox (coeff M 2 2) 1 prec)"

definition isIdentity :: "Matrix3d \<Rightarrow> bool" where
  "isIdentity M = isIdentity_prec M dummy_precision"

section \<open>Collision geometry (\<^verbatim>\<open>collision_object.h\<close>)\<close>

text \<open>
  \<^verbatim>\<open>class AABB\<close>: the two corners, named \<^verbatim>\<open>min_\<close> and \<^verbatim>\<open>max_\<close> in the source (a name may
  not end with an underscore here).
\<close>

record AABB =
  AABB_min :: Vector3d
  AABB_max :: Vector3d

text \<open>
  \<^verbatim>\<open>class CollisionGeometry\<close>. The data members are fields. The three virtual
  const methods \<^verbatim>\<open>computeCOM\<close>, \<^verbatim>\<open>computeMomentofInertia\<close> and \<^verbatim>\<open>computeVolume\<close> take no
  argument and are overridden by the shape classes, so an object carries the value
  its own override returns. \<^verbatim>\<open>void* user_data\<close> is an address.
\<close>

record CollisionGeometry =
  aabb_center :: Vector3d
  aabb_radius :: FCL_REAL
  aabb_local :: AABB
  geom_user_data :: nat
  cost_density :: FCL_REAL
  threshold_occupied :: FCL_REAL
  threshold_free :: FCL_REAL
  computeCOM :: Vector3d
  computeMomentofInertia :: Matrix3d
  computeVolume :: FCL_REAL

definition isOccupied :: "CollisionGeometry \<Rightarrow> bool" where
  "isOccupied g = (cost_density g \<ge> threshold_occupied g)"

definition isFree :: "CollisionGeometry \<Rightarrow> bool" where
  "isFree g = (cost_density g \<le> threshold_free g)"

definition isUncertain :: "CollisionGeometry \<Rightarrow> bool" where
  "isUncertain g = (\<not> isOccupied g \<and> \<not> isFree g)"

text \<open>
  \<^verbatim>\<open>CollisionGeometry::computeMomentofInertiaRelatedToCOM\<close>, the implementation of the
  base class: the nine entries in the order of the comma initialiser.
\<close>

definition computeMomentofInertiaRelatedToCOM :: "CollisionGeometry \<Rightarrow> Matrix3d" where
  "computeMomentofInertiaRelatedToCOM g =
     (let C = computeMomentofInertia g;
          com = computeCOM g;
          V = computeVolume g
      in ((coeff C 0 0 - V * (vcoeff com 1 * vcoeff com 1 + vcoeff com 2 * vcoeff com 2),
           coeff C 0 1 + V * vcoeff com 0 * vcoeff com 1,
           coeff C 0 2 + V * vcoeff com 0 * vcoeff com 2),
          (coeff C 1 0 + V * vcoeff com 1 * vcoeff com 0,
           coeff C 1 1 - V * (vcoeff com 0 * vcoeff com 0 + vcoeff com 2 * vcoeff com 2),
           coeff C 1 2 + V * vcoeff com 1 * vcoeff com 2),
          (coeff C 2 0 + V * vcoeff com 2 * vcoeff com 0,
           coeff C 2 1 + V * vcoeff com 2 * vcoeff com 1,
           coeff C 2 2 - V * (vcoeff com 0 * vcoeff com 0 + vcoeff com 1 * vcoeff com 1))))"

section \<open>Collision objects (\<^verbatim>\<open>collision_object.h\<close>)\<close>

text \<open>
  \<^verbatim>\<open>Transform3d\<close>: the rotation part \<^verbatim>\<open>linear()\<close> and the translation part
  \<^verbatim>\<open>translation()\<close>.
\<close>

record Transform3d =
  linear :: Matrix3d
  translation :: Vector3d

definition Identity :: Transform3d where
  "Identity = \<lparr>linear = MatrixIdentity, translation = Zero3\<rparr>"

text \<open>
  Modelled from the spec: the product \<^verbatim>\<open>t * v\<close> of a transform and a vector belongs to the
  linear-algebra library, which is not under \<^verbatim>\<open>src/\<close>. The data model of the
  specification says that a rigid transform is applied as \<open>x \<mapsto> R x + t\<close>.
\<close>

definition transform :: "Transform3d \<Rightarrow> Vector3d \<Rightarrow> Vector3d" where
  "transform tf v = vadd (mat_vec (linear tf) v) (translation tf)"

text \<open>
  The product \<^verbatim>\<open>T * tf\<close> of two transforms, which the tests use to move both shapes by
  a common transform: first \<open>tf\<close>, then \<open>T\<close>.
\<close>

definition compose :: "Transform3d \<Rightarrow> Transform3d \<Rightarrow> Transform3d" where
  "compose T tf = \<lparr>linear = mat_mul (linear T) (linear tf),
                   translation = transform T (translation tf)\<rparr>"

text \<open>
  Modelled from the spec: \<^verbatim>\<open>translate(aabb, t)\<close> is declared in \<^verbatim>\<open>fcl/BV/AABB.h\<close>, which is
  not under \<^verbatim>\<open>src/\<close>. The specification says that for a translation-only transform the
  local box is translated: both corners move by the vector.
\<close>

definition translate :: "AABB \<Rightarrow> Vector3d \<Rightarrow> AABB" where
  "translate bv v = \<lparr>AABB_min = vadd (AABB_min bv) v, AABB_max = vadd (AABB_max bv) v\<rparr>"

record Quaternion3d =
  qw :: FCL_REAL
  qx :: FCL_REAL
  qy :: FCL_REAL
  qz :: FCL_REAL

text \<open>
  \<^verbatim>\<open>class CollisionObject\<close>. The two shared pointers \<^verbatim>\<open>cgeom\<close> and \<^verbatim>\<open>cgeom_const\<close> are
  modelled by the geometry they point to, \<open>None\<close> for a null pointer (the first
  constructor accepts one); none of the operations below writes through them.
  \<^verbatim>\<open>void* user_data\<close> is an address.
\<close>

record CollisionObject =
  cgeom :: "CollisionGeometry option"
  cgeom_const :: "CollisionGeometry option"
  t :: Transform3d
  aabb :: AABB
  user_data :: nat

definition getAABB :: "CollisionObject \<Rightarrow> AABB" where
  "getAABB obj = aabb obj"

text \<open>
  \<^verbatim>\<open>CollisionObject::computeAABB\<close>. The test \<^verbatim>\<open>t.linear().isIdentity()\<close> is the fuzzy
  comparison above, with its default precision. Reading \<^verbatim>\<open>cgeom->aabb_local\<close> through a
  null pointer has no defined result: \<open>None\<close>.
\<close>

definition computeAABB :: "CollisionObject \<Rightarrow> CollisionObject option" where
  "computeAABB obj =
     (case cgeom obj of
        None \<Rightarrow> None
      | Some g \<Rightarrow>
          if isIdentity (linear (t obj))
          then Some (obj\<lparr>aabb := translate (aabb_local g) (translation (t obj))\<rparr>)
          else
            (let center = transform (t obj) (aabb_center g);
                 delta = Constant3 (aabb_radius g)
             in Some (obj\<lparr>aabb := \<lparr>AABB_min = vsub center delta, AABB_max = vadd center delta\<rparr>\<rparr>)))"

definition getUserData :: "CollisionObject \<Rightarrow> nat" where
  "getUserData obj = user_data obj"

definition setUserData :: "nat \<Rightarrow> CollisionObject \<Rightarrow> CollisionObject" where
  "setUserData data obj = obj\<lparr>user_data := data\<rparr>"

definition getTranslation :: "CollisionObject \<Rightarrow> Vector3d" where
  "getTranslation obj = translation (t obj)"

definition getRotation :: "CollisionObject \<Rightarrow> Matrix3d" where
  "getRotation obj = linear (t obj)"

definition getTransform :: "CollisionObject \<Rightarrow> Transform3d" where
  "getTransform obj = t obj"

definition setRotation :: "Matrix3d \<Rightarrow> CollisionObject \<Rightarrow> CollisionObject" where
  "setRotation R obj = obj\<lparr>t := (t obj)\<lparr>linear := R\<rparr>\<rparr>"

definition setTranslation :: "Vector3d \<Rightarrow> CollisionObject \<Rightarrow> CollisionObject" where
  "setTranslation T obj = obj\<lparr>t := (t obj)\<lparr>translation := T\<rparr>\<rparr>"

text \<open>
  \<^verbatim>\<open>setQuatRotation\<close>: the conversion \<^verbatim>\<open>q.toRotationMatrix()\<close> belongs to the linear-algebra
  library and is a parameter.
\<close>

definition setQuatRotation ::
  "(Quaternion3d \<Rightarrow> Matrix3d) \<Rightarrow> Quaternion3d \<Rightarrow> CollisionObject \<Rightarrow> CollisionObject" where
  "setQuatRotation toRotationMatrix q obj = obj\<lparr>t := (t obj)\<lparr>linear := toRotationMatrix q\<rparr>\<rparr>"

text \<open>The three overloads of \<^verbatim>\<open>setTransform\<close>.\<close>

definition setTransform_RT :: "Matrix3d \<Rightarrow> Vector3d \<Rightarrow> CollisionObject \<Rightarrow> CollisionObject" where
  "setTransform_RT R T obj = setTranslation T (setRotation R obj)"

definition setTransform_qT ::
  "(Quaternion3d \<Rightarrow> Matrix3d) \<Rightarrow> Quaternion3d \<Rightarrow> Vector3d \<Rightarrow> CollisionObject \<Rightarrow> CollisionObject" where
  "setTransform_qT toRotationMatrix q T obj =
     setTranslation T (setQuatRotation toRotationMatrix q obj)"

definition setTransform :: "Transform3d \<Rightarrow> CollisionObject \<Rightarrow> CollisionObject" where
  "setTransform tf obj = obj\<lparr>t := tf\<rparr>"

definition setIdentityTransform :: "CollisionObject \<Rightarrow> CollisionObject" where
  "setIdentityTransform obj = obj\<lparr>t := Identity\<rparr>"

section \<open>Narrow phase for two spheres\<close>

text \<open>
  The narrow-phase routines (\<^verbatim>\<open>fcl/narrowphase/narrowphase.h\<close>, \<^verbatim>\<open>fcl/collision.h\<close>) are not
  under \<^verbatim>\<open>src/\<close>; only their tests are. The definitions of this section follow the
  specification, and the names follow the tests that call them.
\<close>

text \<open>\<^verbatim>\<open>Transform3d(Eigen::Translation3d(v))\<close> of the tests: the unit rotation and \<open>v\<close>.\<close>

definition Translation3d :: "Vector3d \<Rightarrow> Transform3d" where
  "Translation3d v = \<lparr>linear = MatrixIdentity, translation = v\<rparr>"

record Sphere =
  radius :: FCL_REAL

text \<open>The contact point of the tests: \<^verbatim>\<open>normal\<close>, \<^verbatim>\<open>pos\<close> and \<^verbatim>\<open>penetration_depth\<close>.\<close>

record ContactPoint =
  normal :: Vector3d
  pos :: Vector3d
  penetration_depth :: FCL_REAL

datatype GJKSolverType = GST_LIBCCD | GST_INDEP

text \<open>The options of a collision request that the specification lists.\<close>

record CollisionRequest =
  num_max_contacts :: nat
  enable_contact :: bool
  gjk_solver_type :: GJKSolverType
  enable_cached_gjk_guess :: bool
  cached_gjk_guess :: Vector3d
  distance_tolerance :: FCL_REAL

record CollisionResult =
  contacts :: "ContactPoint list"
  is_collision :: bool

text \<open>
  Modelled from the spec: the closed-form sphere--sphere collision routine is missing.
  The specification says: collision iff \<open>\<parallel>c\<^sub>1 - c\<^sub>2\<parallel> \<le> r\<^sub>1 + r\<^sub>2\<close>; the contact normal is
  \<open>(c\<^sub>2 - c\<^sub>1) / \<parallel>c\<^sub>2 - c\<^sub>1\<parallel>\<close>, and the zero vector when the centres coincide; the contact
  position is the midpoint weighted by the radii; the depth is
  \<open>(r\<^sub>1 + r\<^sub>2) - \<parallel>c\<^sub>1 - c\<^sub>2\<parallel>\<close>, clamped at 0. A sphere is centred at the origin of its
  frame, so its centre in the world is the translation of its transform. The weighted
  midpoint is \<open>c\<^sub>1 + (c\<^sub>2 - c\<^sub>1) r\<^sub>1 / (r\<^sub>1 + r\<^sub>2)\<close>: the first scenario of the specification
  (radii 20 and 10, centres 30 apart, contact at 20) fixes which radius weighs which
  centre.
\<close>

definition sphereSphereIntersect ::
  "Sphere \<Rightarrow> Transform3d \<Rightarrow> Sphere \<Rightarrow> Transform3d \<Rightarrow> bool \<times> ContactPoint list" where
  "sphereSphereIntersect s1 tf1 s2 tf2 =
     (let c1 = translation tf1;
          c2 = translation tf2;
          diff = vsub c2 c1;
          len = norm3 diff
      in if len \<le> radius s1 + radius s2
         then (True,
               [\<lparr>normal = (if c1 = c2 then Zero3 else vdiv diff len),
                 pos = vadd c1 (vscale diff (radius s1 / (radius s1 + radius s2))),
                 penetration_depth = max 0 (radius s1 + radius s2 - len)\<rparr>])
         else (False, []))"

text \<open>
  Modelled from the spec: \<^verbatim>\<open>collide\<close> is missing; this is its entry for two spheres. The
  specification says that the dispatch layer calls the closed-form routine of the pair,
  that without \<^verbatim>\<open>enable_contact\<close> only the boolean is set and no contact is produced, and
  that otherwise contacts are appended up to the maximal number and the rest dropped.
\<close>

definition collide_SphereSphere ::
  "Sphere \<Rightarrow> Transform3d \<Rightarrow> Sphere \<Rightarrow> Transform3d \<Rightarrow> CollisionRequest \<Rightarrow> CollisionResult" where
  "collide_SphereSphere s1 tf1 s2 tf2 request =
     (let (res, cs) = sphereSphereIntersect s1 tf1 s2 tf2
      in \<lparr>contacts = (if enable_contact request then take (num_max_contacts request) cs else []),
          is_collision = res\<rparr>)"

text \<open>
  Modelled from the spec: the sphere--sphere distance routine behind \<^verbatim>\<open>shapeDistance\<close> is
  missing. The specification says that the distance operation returns the non-negative
  separation on success and that a negative scalar means that the shapes overlap; the
  separation of two spheres is \<open>\<parallel>t\<^sub>1 - t\<^sub>2\<parallel> - r\<^sub>1 - r\<^sub>2\<close>. The test
  \<^verbatim>\<open>shapeDistance_spheresphere\<close> expects, for radii 20 and 10 with centres 29.9 apart, that
  the call reports failure and that the scalar is negative; for 30.1 and 40 it expects
  success with 0.1 and 10. Spheres overlap exactly when the collision routine above
  reports a collision. The test needs the routine to store a negative scalar on failure
  (the call before left 0.1 in the variable); the model stores \<open>- 1\<close>.
\<close>

definition shapeDistance_SphereSphere ::
  "Sphere \<Rightarrow> Transform3d \<Rightarrow> Sphere \<Rightarrow> Transform3d \<Rightarrow> bool \<times> FCL_REAL" where
  "shapeDistance_SphereSphere s1 tf1 s2 tf2 =
     (let len = norm3 (vsub (translation tf1) (translation tf2))
      in if len > radius s1 + radius s2
         then (True, len - (radius s1 + radius s2))
         else (False, - 1))"

section \<open>Example objects\<close>

text \<open>A geometry with an off-centre centre of mass, as a mesh would have.\<close>

definition example_geometry :: CollisionGeometry where
  "example_geometry =
     \<lparr>aabb_center = (1, 2, 3), aabb_radius = 5,
      aabb_local = \<lparr>AABB_min = (0, 0, 0), AABB_max = (2, 4, 6)\<rparr>,
      geom_user_data = 0, cost_density = 1, threshold_occupied = 1, threshold_free = 0,
      computeCOM = (1, 2, 3),
      computeMomentofInertia = ((10, 1, 2), (1, 20, 3), (2, 3, 30)),
      computeVolume = 2\<rparr>"

text \<open>An object translated by \<open>(10, 20, 30)\<close>, its world box not yet computed.\<close>

definition example_translated :: CollisionObject where
  "example_translated =
     \<lparr>cgeom = Some example_geometry, cgeom_const = Some example_geometry,
      t = \<lparr>linear = MatrixIdentity, translation = (10, 20, 30)\<rparr>,
      aabb = \<lparr>AABB_min = (0, 0, 0), AABB_max = (0, 0, 0)\<rparr>, user_data = 7\<rparr>"

text \<open>The same object turned by a quarter turn about the z axis.\<close>

definition example_rotated :: CollisionObject where
  "example_rotated =
     \<lparr>cgeom = Some example_geometry, cgeom_const = Some example_geometry,
      t = \<lparr>linear = ((0, -1, 0), (1, 0, 0), (0, 0, 1)), translation = (10, 20, 30)\<rparr>,
      aabb = \<lparr>AABB_min = (0, 0, 0), AABB_max = (0, 0, 0)\<rparr>, user_data = 7\<rparr>"

text \<open>
  The same object with a rotation part that is not the identity matrix: the entry
  \<open>(0, 1)\<close> is \<open>2\<^sup>-\<^sup>4\<^sup>4\<close>, a value of type \<^verbatim>\<open>double\<close>.
\<close>

definition example_near_identity :: CollisionObject where
  "example_near_identity =
     \<lparr>cgeom = Some example_geometry, cgeom_const = Some example_geometry,
      t = \<lparr>linear = ((1, 1 / 2 ^ 44, 0), (0, 1, 0), (0, 0, 1)), translation = (10, 20, 30)\<rparr>,
      aabb = \<lparr>AABB_min = (0, 0, 0), AABB_max = (0, 0, 0)\<rparr>, user_data = 7\<rparr>"

text \<open>
  An object without a geometry, as the first constructor builds from a null pointer
  (it then leaves the world box alone).
\<close>

definition example_null :: CollisionObject where
  "example_null =
     \<lparr>cgeom = None, cgeom_const = None,
      t = \<lparr>linear = MatrixIdentity, translation = Zero3\<rparr>,
      aabb = \<lparr>AABB_min = (0, 0, 0), AABB_max = (0, 0, 0)\<rparr>, user_data = 7\<rparr>"

text \<open>A request that asks for one contact.\<close>

definition contact_request :: CollisionRequest where
  "contact_request =
     \<lparr>num_max_contacts = 1, enable_contact = True, gjk_solver_type = GST_LIBCCD,
      enable_cached_gjk_guess = False, cached_gjk_guess = (1, 0, 0),
      distance_tolerance = 1 / 10 ^ 6\<rparr>"

section \<open>Moment of inertia about the centre of mass\<close>

lemma lt3_cases: "(i::nat) < 3 \<Longrightarrow> i = 0 \<or> i = 1 \<or> i = 2"
  by arith

lemma perm3_cases:
  fixes i j k :: nat
  assumes "i < 3" "j < 3" "k < 3" "i \<noteq> j" "i \<noteq> k" "j \<noteq> k"
  shows "i = 0 \<and> j = 1 \<and> k = 2 \<or> i = 0 \<and> j = 2 \<and> k = 1 \<or>
         i = 1 \<and> j = 0 \<and> k = 2 \<or> i = 1 \<and> j = 2 \<and> k = 0 \<or>
         i = 2 \<and> j = 0 \<and> k = 1 \<or> i = 2 \<and> j = 1 \<and> k = 0"
proof -
  note lt3_cases [OF assms(1)] lt3_cases [OF assms(2)] lt3_cases [OF assms(3)]
  with assms(4-6) show ?thesis
    by blast
qed

text \<open>The nine entries of the result, read off the comma initialiser.\<close>

lemma RelatedToCOM_entries:
  assumes "computeMomentofInertia g = C" "computeCOM g = (x, y, z)" "computeVolume g = V"
  shows "coeff (computeMomentofInertiaRelatedToCOM g) 0 0 = coeff C 0 0 - V * (y * y + z * z)"
    and "coeff (computeMomentofInertiaRelatedToCOM g) 0 1 = coeff C 0 1 + V * x * y"
    and "coeff (computeMomentofInertiaRelatedToCOM g) 0 2 = coeff C 0 2 + V * x * z"
    and "coeff (computeMomentofInertiaRelatedToCOM g) 1 0 = coeff C 1 0 + V * y * x"
    and "coeff (computeMomentofInertiaRelatedToCOM g) 1 1 = coeff C 1 1 - V * (x * x + z * z)"
    and "coeff (computeMomentofInertiaRelatedToCOM g) 1 2 = coeff C 1 2 + V * y * z"
    and "coeff (computeMomentofInertiaRelatedToCOM g) 2 0 = coeff C 2 0 + V * z * x"
    and "coeff (computeMomentofInertiaRelatedToCOM g) 2 1 = coeff C 2 1 + V * z * y"
    and "coeff (computeMomentofInertiaRelatedToCOM g) 2 2 = coeff C 2 2 - V * (x * x + y * y)"
  using assms by (simp_all add: computeMomentofInertiaRelatedToCOM_def Let_def)

lemma coeff_RelatedToCOM_diag:
  assumes "i < 3" "j < 3" "k < 3" "i \<noteq> j" "i \<noteq> k" "j \<noteq> k"
  shows "coeff (computeMomentofInertiaRelatedToCOM g) i i =
         coeff (computeMomentofInertia g) i i
           - computeVolume g * ((vcoeff (computeCOM g) j)\<^sup>2 + (vcoeff (computeCOM g) k)\<^sup>2)"
proof -
  obtain x y z where com: "computeCOM g = (x, y, z)"
    using prod_cases3 by blast
  note e = RelatedToCOM_entries [OF refl com refl]
  from perm3_cases [OF assms]
  consider "i = 0" "j = 1" "k = 2" | "i = 0" "j = 2" "k = 1" | "i = 1" "j = 0" "k = 2"
    | "i = 1" "j = 2" "k = 0" | "i = 2" "j = 0" "k = 1" | "i = 2" "j = 1" "k = 0"
    by blast
  then show ?thesis
  proof cases
    case 1 then show ?thesis using e(1) by (simp add: com power2_eq_square)
  next
    case 2 then show ?thesis using e(1) by (simp add: com power2_eq_square)
  next
    case 3 then show ?thesis using e(5) by (simp add: com power2_eq_square)
  next
    case 4 then show ?thesis using e(5) by (simp add: com power2_eq_square)
  next
    case 5 then show ?thesis using e(9) by (simp add: com power2_eq_square)
  next
    case 6 then show ?thesis using e(9) by (simp add: com power2_eq_square)
  qed
qed

lemma coeff_RelatedToCOM_offdiag:
  assumes "i < 3" "j < 3" "i \<noteq> j"
  shows "coeff (computeMomentofInertiaRelatedToCOM g) i j =
         coeff (computeMomentofInertia g) i j
           + computeVolume g * vcoeff (computeCOM g) i * vcoeff (computeCOM g) j"
proof -
  obtain x y z where com: "computeCOM g = (x, y, z)"
    using prod_cases3 by blast
  note e = RelatedToCOM_entries [OF refl com refl]
  from lt3_cases [OF assms(1)] lt3_cases [OF assms(2)] assms(3)
  consider "i = 0" "j = 1" | "i = 0" "j = 2" | "i = 1" "j = 0"
    | "i = 1" "j = 2" | "i = 2" "j = 0" | "i = 2" "j = 1"
    by blast
  then show ?thesis
  proof cases
    case 1 then show ?thesis using e(2) by (simp add: com)
  next
    case 2 then show ?thesis using e(3) by (simp add: com)
  next
    case 3 then show ?thesis using e(4) by (simp add: com)
  next
    case 4 then show ?thesis using e(6) by (simp add: com)
  next
    case 5 then show ?thesis using e(7) by (simp add: com)
  next
    case 6 then show ?thesis using e(8) by (simp add: com)
  qed
qed

text \<open>
  Claim C10. For every geometry, \<^verbatim>\<open>computeMomentofInertiaRelatedToCOM()\<close> is
  \<^verbatim>\<open>computeMomentofInertia()\<close> corrected by the parallel-axis formula with the volume
  as the mass: for the three axes \<open>i\<close>, \<open>j\<close>, \<open>k\<close> in any order, the diagonal entry
  \<open>(i, i)\<close> subtracts \<open>V * (com\<^sub>j\<^sup>2 + com\<^sub>k\<^sup>2)\<close> and the off-diagonal entry \<open>(i, j)\<close> adds
  \<open>V * com\<^sub>i * com\<^sub>j\<close>, where \<open>com\<close> is \<^verbatim>\<open>computeCOM()\<close> and \<open>V\<close> is \<^verbatim>\<open>computeVolume()\<close>.
\<close>

theorem C10_parallel_axis:
  assumes "i < 3" "j < 3" "k < 3" "i \<noteq> j" "i \<noteq> k" "j \<noteq> k"
  shows "coeff (computeMomentofInertiaRelatedToCOM g) i i =
           coeff (computeMomentofInertia g) i i
             - computeVolume g * ((vcoeff (computeCOM g) j)\<^sup>2 + (vcoeff (computeCOM g) k)\<^sup>2)
       \<and> coeff (computeMomentofInertiaRelatedToCOM g) i j =
           coeff (computeMomentofInertia g) i j
             + computeVolume g * vcoeff (computeCOM g) i * vcoeff (computeCOM g) j"
  using assms coeff_RelatedToCOM_diag [of i j k g] coeff_RelatedToCOM_offdiag [of i j g]
  by simp

theorem C10_parallel_axis_witness:
  "(0::nat) < 3 \<and> (1::nat) < 3 \<and> (2::nat) < 3
   \<and> coeff (computeMomentofInertiaRelatedToCOM example_geometry) 0 0 = 10 - 2 * (2\<^sup>2 + 3\<^sup>2)
   \<and> coeff (computeMomentofInertiaRelatedToCOM example_geometry) 0 1 = 1 + 2 * 1 * 2"
  using C10_parallel_axis [of 0 1 2 example_geometry]
  by (simp add: example_geometry_def)

section \<open>The world box of a collision object\<close>

lemma isIdentity_MatrixIdentity: "isIdentity MatrixIdentity"
  by (simp add: isIdentity_def isIdentity_prec_def isApprox_def isMuchSmallerThan_def
      MatrixIdentity_def dummy_precision_def)

lemma isIdentity_near_identity: "isIdentity ((1, 1 / 2 ^ 44, 0), (0, 1, 0), (0, 0, 1))"
  by (simp add: isIdentity_def isIdentity_prec_def isApprox_def isMuchSmallerThan_def
      dummy_precision_def)

lemma not_isIdentity_quarter_turn: "\<not> isIdentity ((0, -1, 0), (1, 0, 0), (0, 0, 1))"
  by (simp add: isIdentity_def isIdentity_prec_def isApprox_def)

text \<open>
  Claim C8, as stated, fails in two places. The claim sends every rotation part other
  than the identity to the cube; the code tests \<^verbatim>\<open>isIdentity()\<close>, which also accepts a
  matrix within \<open>10\<^sup>-\<^sup>1\<^sup>2\<close> of the identity. For the object at \<open>(10, 20, 30)\<close> whose rotation
  part has \<open>2\<^sup>-\<^sup>4\<^sup>4\<close> at entry \<open>(0, 1)\<close>, \<^verbatim>\<open>computeAABB()\<close> yields the translated local box
  from \<open>(10, 20, 30)\<close> to \<open>(12, 24, 36)\<close>, not the cube of half-width 5 around the
  transformed centre. The claim also speaks of every collision object; for an object
  without a geometry \<^verbatim>\<open>computeAABB()\<close> reads through a null pointer and sets no box.
\<close>

theorem C8_near_identity_counterexample:
  "linear (t example_near_identity) \<noteq> MatrixIdentity
   \<and> map_option getAABB (computeAABB example_near_identity)
       = Some \<lparr>AABB_min = (10, 20, 30), AABB_max = (12, 24, 36)\<rparr>
   \<and> map_option getAABB (computeAABB example_near_identity)
       \<noteq> Some \<lparr>AABB_min = vsub (transform (t example_near_identity) (aabb_center example_geometry))
                               (Constant3 (aabb_radius example_geometry)),
                AABB_max = vadd (transform (t example_near_identity) (aabb_center example_geometry))
                               (Constant3 (aabb_radius example_geometry))\<rparr>
   \<and> cgeom example_null = None
   \<and> computeAABB example_null = None"
proof -
  have lin: "linear (t example_near_identity) = ((1, 1 / 2 ^ 44, 0), (0, 1, 0), (0, 0, 1))"
    by (simp add: example_near_identity_def)
  have ne: "linear (t example_near_identity) \<noteq> MatrixIdentity"
    by (simp add: lin MatrixIdentity_def)
  have box: "computeAABB example_near_identity
               = Some (example_near_identity
                         \<lparr>aabb := \<lparr>AABB_min = (10, 20, 30), AABB_max = (12, 24, 36)\<rparr>\<rparr>)"
    using isIdentity_near_identity
    by (simp add: computeAABB_def lin)
       (simp add: example_near_identity_def example_geometry_def translate_def)
  have null: "computeAABB example_null = None" "cgeom example_null = None"
    by (simp_all add: computeAABB_def example_null_def)
  show ?thesis
    using ne null
    by (simp add: box getAABB_def)
       (simp add: example_near_identity_def example_geometry_def transform_def Constant3_def)
qed

text \<open>
  Claim C8, amended. For every collision object with a geometry, \<^verbatim>\<open>computeAABB()\<close>
  succeeds and changes only the world box. When the rotation part of the transform
  passes the test \<^verbatim>\<open>isIdentity()\<close> (each entry within the precision \<open>10\<^sup>-\<^sup>1\<^sup>2\<close> of the entry
  of the identity matrix), and so in particular when it is the identity, the world box
  is the local box of the geometry with both corners moved by the object's
  translation. When it does not pass the test, the world box is the cube around the
  transformed centre of the local box whose half-width is the local radius on each
  axis: its corners are the centre minus and plus the radius, so its midpoint is the
  transformed centre and each of its sides is twice the radius.
\<close>

theorem C8_computeAABB_isIdentity:
  assumes "cgeom obj = Some g"
  shows "\<exists>obj'. computeAABB obj = Some obj'
           \<and> cgeom obj' = cgeom obj \<and> cgeom_const obj' = cgeom_const obj
           \<and> t obj' = t obj \<and> user_data obj' = user_data obj
           \<and> (linear (t obj) = MatrixIdentity \<longrightarrow>
                AABB_min (getAABB obj') = vadd (AABB_min (aabb_local g)) (translation (t obj))
                \<and> AABB_max (getAABB obj') = vadd (AABB_max (aabb_local g)) (translation (t obj)))
           \<and> (if isIdentity (linear (t obj))
              then AABB_min (getAABB obj') = vadd (AABB_min (aabb_local g)) (translation (t obj))
                 \<and> AABB_max (getAABB obj') = vadd (AABB_max (aabb_local g)) (translation (t obj))
              else AABB_min (getAABB obj')
                     = vsub (vadd (mat_vec (linear (t obj)) (aabb_center g)) (translation (t obj)))
                            (aabb_radius g, aabb_radius g, aabb_radius g)
                 \<and> AABB_max (getAABB obj')
                     = vadd (vadd (mat_vec (linear (t obj)) (aabb_center g)) (translation (t obj)))
                            (aabb_radius g, aabb_radius g, aabb_radius g)
                 \<and> vscale (vadd (AABB_min (getAABB obj')) (AABB_max (getAABB obj'))) (1 / 2)
                     = vadd (mat_vec (linear (t obj)) (aabb_center g)) (translation (t obj))
                 \<and> vsub (AABB_max (getAABB obj')) (AABB_min (getAABB obj'))
                     = (2 * aabb_radius g, 2 * aabb_radius g, 2 * aabb_radius g))"
proof (cases "isIdentity (linear (t obj))")
  case True
  with assms show ?thesis
    by (simp add: computeAABB_def getAABB_def translate_def)
next
  case False
  then have ne: "linear (t obj) \<noteq> MatrixIdentity"
    using isIdentity_MatrixIdentity by auto
  obtain cx cy cz where c: "transform (t obj) (aabb_center g) = (cx, cy, cz)"
    using prod_cases3 by blast
  then have c': "vadd (mat_vec (linear (t obj)) (aabb_center g)) (translation (t obj)) = (cx, cy, cz)"
    by (simp add: transform_def)
  from False assms ne show ?thesis
    by (simp add: computeAABB_def getAABB_def Let_def Constant3_def c c')
qed

theorem C8_computeAABB_isIdentity_witness:
  "cgeom example_translated = Some example_geometry
   \<and> linear (t example_translated) = MatrixIdentity
   \<and> isIdentity (linear (t example_translated))
   \<and> computeAABB example_translated
       = Some (example_translated\<lparr>aabb := \<lparr>AABB_min = (10, 20, 30), AABB_max = (12, 24, 36)\<rparr>\<rparr>)
   \<and> cgeom example_rotated = Some example_geometry
   \<and> \<not> isIdentity (linear (t example_rotated))
   \<and> computeAABB example_rotated
       = Some (example_rotated\<lparr>aabb := \<lparr>AABB_min = (3, 16, 28), AABB_max = (13, 26, 38)\<rparr>\<rparr>)"
proof -
  have g1: "cgeom example_translated = Some example_geometry"
    by (simp add: example_translated_def)
  have g2: "cgeom example_rotated = Some example_geometry"
    by (simp add: example_rotated_def)
  have l1: "linear (t example_translated) = MatrixIdentity"
    by (simp add: example_translated_def)
  have i1: "isIdentity (linear (t example_translated))"
    by (simp add: l1 isIdentity_MatrixIdentity)
  have i2: "\<not> isIdentity (linear (t example_rotated))"
    using not_isIdentity_quarter_turn by (simp add: example_rotated_def)
  from C8_computeAABB_isIdentity [OF g1] l1
  have "computeAABB example_translated
          = Some (example_translated\<lparr>aabb := \<lparr>AABB_min = (10, 20, 30), AABB_max = (12, 24, 36)\<rparr>\<rparr>)"
    by (auto simp: getAABB_def example_translated_def example_geometry_def)
  moreover from C8_computeAABB_isIdentity [OF g2] i2
  have "computeAABB example_rotated
          = Some (example_rotated\<lparr>aabb := \<lparr>AABB_min = (3, 16, 28), AABB_max = (13, 26, 38)\<rparr>\<rparr>)"
    by (auto simp: getAABB_def example_rotated_def example_geometry_def)
  ultimately show ?thesis
    using g1 g2 l1 i1 i2 by simp
qed

section \<open>Changing the transform leaves the cached world box alone\<close>

text \<open>
  Claim C9. \<^verbatim>\<open>setTranslation\<close>, \<^verbatim>\<open>setRotation\<close>, \<^verbatim>\<open>setQuatRotation\<close> and the three overloads
  of \<^verbatim>\<open>setTransform\<close> change only the stored transform: the world box returned by
  \<^verbatim>\<open>getAABB()\<close>, the geometry pointers and the user data are those of the object before
  the call, so \<^verbatim>\<open>getAABB()\<close> still returns the box computed for the old transform.
\<close>

theorem C9_setters_keep_aabb:
  "getAABB (setTranslation T obj) = getAABB obj
   \<and> cgeom (setTranslation T obj) = cgeom obj
   \<and> cgeom_const (setTranslation T obj) = cgeom_const obj
   \<and> user_data (setTranslation T obj) = user_data obj
   \<and> t (setTranslation T obj) = (t obj)\<lparr>translation := T\<rparr>
   \<and> getAABB (setRotation R obj) = getAABB obj
   \<and> cgeom (setRotation R obj) = cgeom obj
   \<and> cgeom_const (setRotation R obj) = cgeom_const obj
   \<and> user_data (setRotation R obj) = user_data obj
   \<and> t (setRotation R obj) = (t obj)\<lparr>linear := R\<rparr>
   \<and> getAABB (setQuatRotation toRotationMatrix q obj) = getAABB obj
   \<and> cgeom (setQuatRotation toRotationMatrix q obj) = cgeom obj
   \<and> cgeom_const (setQuatRotation toRotationMatrix q obj) = cgeom_const obj
   \<and> user_data (setQuatRotation toRotationMatrix q obj) = user_data obj
   \<and> t (setQuatRotation toRotationMatrix q obj) = (t obj)\<lparr>linear := toRotationMatrix q\<rparr>
   \<and> getAABB (setTransform_RT R T obj) = getAABB obj
   \<and> cgeom (setTransform_RT R T obj) = cgeom obj
   \<and> cgeom_const (setTransform_RT R T obj) = cgeom_const obj
   \<and> user_data (setTransform_RT R T obj) = user_data obj
   \<and> t (setTransform_RT R T obj) = (t obj)\<lparr>linear := R, translation := T\<rparr>
   \<and> getAABB (setTransform_qT toRotationMatrix q T obj) = getAABB obj
   \<and> cgeom (setTransform_qT toRotationMatrix q T obj) = cgeom obj
   \<and> cgeom_const (setTransform_qT toRotationMatrix q T obj) = cgeom_const obj
   \<and> user_data (setTransform_qT toRotationMatrix q T obj) = user_data obj
   \<and> t (setTransform_qT toRotationMatrix q T obj)
       = (t obj)\<lparr>linear := toRotationMatrix q, translation := T\<rparr>
   \<and> getAABB (setTransform tf obj) = getAABB obj
   \<and> cgeom (setTransform tf obj) = cgeom obj
   \<and> cgeom_const (setTransform tf obj) = cgeom_const obj
   \<and> user_data (setTransform tf obj) = user_data obj
   \<and> t (setTransform tf obj) = tf"
  by (simp add: getAABB_def setTranslation_def setRotation_def setQuatRotation_def
      setTransform_RT_def setTransform_qT_def setTransform_def)

text \<open>
  An example of the stale box: the object at \<open>(10, 20, 30)\<close> with its world box computed
  is moved back to the origin; \<^verbatim>\<open>getAABB()\<close> still returns the box at \<open>(10, 20, 30)\<close>, and
  \<^verbatim>\<open>computeAABB()\<close> then brings the box to the origin.
\<close>

lemma getAABB_stale_example:
  "getAABB (setTranslation (0, 0, 0)
              (example_translated\<lparr>aabb := \<lparr>AABB_min = (10, 20, 30), AABB_max = (12, 24, 36)\<rparr>\<rparr>))
     = \<lparr>AABB_min = (10, 20, 30), AABB_max = (12, 24, 36)\<rparr>
   \<and> map_option getAABB
         (computeAABB
            (setTranslation (0, 0, 0)
               (example_translated\<lparr>aabb := \<lparr>AABB_min = (10, 20, 30), AABB_max = (12, 24, 36)\<rparr>\<rparr>)))
       = Some \<lparr>AABB_min = (0, 0, 0), AABB_max = (2, 4, 6)\<rparr>"
  by (simp add: getAABB_def setTranslation_def computeAABB_def example_translated_def
      example_geometry_def isIdentity_MatrixIdentity translate_def)

section \<open>Two spheres: collision\<close>

lemma norm3_axis_x: "norm3 (x, 0, 0) = \<bar>x\<bar>"
  by (simp add: norm3_def)

lemma norm3_axis_y: "norm3 (0, y, 0) = \<bar>y\<bar>"
  by (simp add: norm3_def)

lemma norm3_vsub_self: "norm3 (vsub c c) = 0"
  by (cases c) (simp add: norm3_def)

lemma norm3_nonneg: "0 \<le> norm3 v"
  by (cases v) (simp add: norm3_def)

lemma norm3_vsub_commute: "norm3 (vsub a b) = norm3 (vsub b a)"
proof -
  obtain a1 a2 a3 where a: "a = (a1, a2, a3)" using prod_cases3 by blast
  obtain b1 b2 b3 where b: "b = (b1, b2, b3)" using prod_cases3 by blast
  have "(a1 - b1) * (a1 - b1) = (b1 - a1) * (b1 - a1)"
       "(a2 - b2) * (a2 - b2) = (b2 - a2) * (b2 - a2)"
       "(a3 - b3) * (a3 - b3) = (b3 - a3) * (b3 - a3)"
    by (simp_all add: algebra_simps)
  then show ?thesis
    by (simp add: a b norm3_def)
qed

lemma vadd_vscale_zero: "vadd c (vscale (vsub c c) k) = c"
  by (cases c) simp

text \<open>
  Claim C2. A sphere of radius 20 at the identity and a sphere of radius 10 translated
  by \<open>(29.9, 0, 0)\<close> collide, and a request for contacts gets exactly one: its depth is
  0.1, its normal is \<open>(1, 0, 0)\<close> and its position is \<open>(20 - 0.1 * 20 / (20 + 10), 0, 0)\<close>.
  The values are exact for the formulas of the specification, hence within every
  tolerance.
\<close>

theorem C2_sphere_sphere_scenario:
  assumes "enable_contact request" "1 \<le> num_max_contacts request"
  shows "is_collision (collide_SphereSphere \<lparr>radius = 20\<rparr> Identity
                         \<lparr>radius = 10\<rparr> (Translation3d (299 / 10, 0, 0)) request)
       \<and> (\<exists>c. contacts (collide_SphereSphere \<lparr>radius = 20\<rparr> Identity
                         \<lparr>radius = 10\<rparr> (Translation3d (299 / 10, 0, 0)) request) = [c]
              \<and> penetration_depth c = 1 / 10
              \<and> normal c = (1, 0, 0)
              \<and> pos c = (20 - (1 / 10) * 20 / (20 + 10), 0, 0))"
proof -
  have len: "norm3 (vsub (299 / 10, 0, 0) Zero3) = 299 / 10"
    by (simp add: Zero3_def norm3_axis_x)
  obtain m where m: "num_max_contacts request = Suc m"
    using assms(2) by (cases "num_max_contacts request") simp_all
  show ?thesis
    using assms(1) len
    by (simp add: collide_SphereSphere_def sphereSphereIntersect_def Identity_def
        Translation3d_def Let_def m Zero3_def)
qed

theorem C2_sphere_sphere_scenario_witness:
  "enable_contact contact_request \<and> 1 \<le> num_max_contacts contact_request
   \<and> contacts (collide_SphereSphere \<lparr>radius = 20\<rparr> Identity
                 \<lparr>radius = 10\<rparr> (Translation3d (299 / 10, 0, 0)) contact_request)
       = [\<lparr>normal = (1, 0, 0), pos = (299 / 15, 0, 0), penetration_depth = 1 / 10\<rparr>]"
proof -
  have h: "enable_contact contact_request" "1 \<le> num_max_contacts contact_request"
    by (simp_all add: contact_request_def)
  from C2_sphere_sphere_scenario [OF h] h show ?thesis
    by auto
qed

text \<open>
  Claim C3. Two spheres whose centres in the world are equal collide; the contact has
  the zero vector as its normal, the maximal depth \<open>r\<^sub>1 + r\<^sub>2\<close>, and the common centre as
  its position. The radii are positive, as the validation of shapes requires.
\<close>

theorem C3_concentric_spheres:
  assumes "0 < radius s1" "0 < radius s2" "translation tf1 = translation tf2"
    and "enable_contact request" "1 \<le> num_max_contacts request"
  shows "is_collision (collide_SphereSphere s1 tf1 s2 tf2 request)
       \<and> (\<exists>c. contacts (collide_SphereSphere s1 tf1 s2 tf2 request) = [c]
              \<and> normal c = Zero3
              \<and> penetration_depth c = radius s1 + radius s2
              \<and> pos c = translation tf1)"
proof -
  obtain m where m: "num_max_contacts request = Suc m"
    using assms(5) by (cases "num_max_contacts request") simp_all
  show ?thesis
    using assms(1-4)
    by (simp add: collide_SphereSphere_def sphereSphereIntersect_def Let_def m
        norm3_vsub_self vadd_vscale_zero)
qed

theorem C3_concentric_spheres_witness:
  "0 < radius \<lparr>radius = 20\<rparr> \<and> 0 < radius \<lparr>radius = 10\<rparr>
   \<and> translation Identity = translation (Translation3d (0, 0, 0))
   \<and> enable_contact contact_request \<and> 1 \<le> num_max_contacts contact_request
   \<and> contacts (collide_SphereSphere \<lparr>radius = 20\<rparr> Identity
                 \<lparr>radius = 10\<rparr> (Translation3d (0, 0, 0)) contact_request)
       = [\<lparr>normal = (0, 0, 0), pos = (0, 0, 0), penetration_depth = 30\<rparr>]"
proof -
  have r: "0 < radius \<lparr>radius = 20\<rparr>" "0 < radius \<lparr>radius = 10\<rparr>"
    by simp_all
  have c: "translation Identity = translation (Translation3d (0, 0, 0))"
    by (simp add: Identity_def Translation3d_def Zero3_def)
  have h: "enable_contact contact_request" "1 \<le> num_max_contacts contact_request"
    by (simp_all add: contact_request_def)
  from C3_concentric_spheres [OF r c h] r c h show ?thesis
    by (auto simp: Zero3_def Identity_def)
qed

section \<open>Two spheres: distance\<close>

text \<open>
  Claim C5, as stated, fails: for radii 20 and 10 with the centres 29.9 apart the
  spheres overlap, \<open>max 0 (\<parallel>t\<^sub>1 - t\<^sub>2\<parallel> - r\<^sub>1 - r\<^sub>2)\<close> is 0, and the distance operation reports
  a negative scalar, as the test \<^verbatim>\<open>shapeDistance_spheresphere\<close> expects.
\<close>

theorem C5_overlap_counterexample:
  "snd (shapeDistance_SphereSphere \<lparr>radius = 20\<rparr> Identity
          \<lparr>radius = 10\<rparr> (Translation3d (299 / 10, 0, 0)))
     \<noteq> max 0 (norm3 (vsub (translation Identity) (translation (Translation3d (299 / 10, 0, 0))))
                - radius \<lparr>radius = 20\<rparr> - radius \<lparr>radius = 10\<rparr>)"
proof -
  have len: "norm3 (vsub Zero3 (299 / 10, 0, 0)) = 299 / 10"
    by (simp add: Zero3_def norm3_axis_x)
  show ?thesis
    using len
    by (simp add: shapeDistance_SphereSphere_def Identity_def Translation3d_def Let_def)
qed

text \<open>
  Claim C5, amended. When two spheres are separated, the distance operation succeeds
  and returns \<open>\<parallel>t\<^sub>1 - t\<^sub>2\<parallel> - r\<^sub>1 - r\<^sub>2\<close>, whatever the rotations of the two transforms.
  When they overlap, it does not return 0: it reports failure and a negative scalar.
\<close>

theorem C5_sphere_distance:
  "(radius s1 + radius s2 < norm3 (vsub (translation tf1) (translation tf2)) \<longrightarrow>
      shapeDistance_SphereSphere s1 tf1 s2 tf2
        = (True, norm3 (vsub (translation tf1) (translation tf2)) - radius s1 - radius s2))
   \<and> (norm3 (vsub (translation tf1) (translation tf2)) < radius s1 + radius s2 \<longrightarrow>
        \<not> fst (shapeDistance_SphereSphere s1 tf1 s2 tf2)
        \<and> snd (shapeDistance_SphereSphere s1 tf1 s2 tf2) < 0)"
  by (simp add: shapeDistance_SphereSphere_def Let_def)

theorem C5_sphere_distance_witness:
  "radius \<lparr>radius = 20\<rparr> + radius \<lparr>radius = 10\<rparr>
     < norm3 (vsub (translation Identity) (translation (Translation3d (0, 40, 0))))
   \<and> shapeDistance_SphereSphere \<lparr>radius = 20\<rparr> Identity
        \<lparr>radius = 10\<rparr> (Translation3d (0, 40, 0)) = (True, 10)
   \<and> norm3 (vsub (translation Identity) (translation (Translation3d (299 / 10, 0, 0))))
     < radius \<lparr>radius = 20\<rparr> + radius \<lparr>radius = 10\<rparr>
   \<and> \<not> fst (shapeDistance_SphereSphere \<lparr>radius = 20\<rparr> Identity
              \<lparr>radius = 10\<rparr> (Translation3d (299 / 10, 0, 0)))
   \<and> snd (shapeDistance_SphereSphere \<lparr>radius = 20\<rparr> Identity
            \<lparr>radius = 10\<rparr> (Translation3d (299 / 10, 0, 0))) < 0"
proof -
  have far: "norm3 (vsub (translation Identity) (translation (Translation3d (0, 40, 0)))) = 40"
    by (simp add: Identity_def Translation3d_def Zero3_def norm3_axis_y)
  have near: "norm3 (vsub (translation Identity) (translation (Translation3d (299 / 10, 0, 0))))
                = 299 / 10"
    by (simp add: Identity_def Translation3d_def Zero3_def norm3_axis_x)
  from C5_sphere_distance [of "\<lparr>radius = 20\<rparr>" "\<lparr>radius = 10\<rparr>" Identity "Translation3d (0, 40, 0)"]
    far
  have a: "shapeDistance_SphereSphere \<lparr>radius = 20\<rparr> Identity
             \<lparr>radius = 10\<rparr> (Translation3d (0, 40, 0)) = (True, 10)"
    by simp
  from C5_sphere_distance [of "\<lparr>radius = 20\<rparr>" "\<lparr>radius = 10\<rparr>" Identity
      "Translation3d (299 / 10, 0, 0)"] near
  have b: "\<not> fst (shapeDistance_SphereSphere \<lparr>radius = 20\<rparr> Identity
                    \<lparr>radius = 10\<rparr> (Translation3d (299 / 10, 0, 0)))
         \<and> snd (shapeDistance_SphereSphere \<lparr>radius = 20\<rparr> Identity
                  \<lparr>radius = 10\<rparr> (Translation3d (299 / 10, 0, 0))) < 0"
    by simp
  from a b far near show ?thesis
    by simp
qed

section \<open>Further properties of the two-sphere routines\<close>

text \<open>
  Swapping the operands of the two-sphere routines keeps the outcome, the depth and the
  contact position, and negates the normal; the distance result is the same.
\<close>

lemma sphereSphereIntersect_swap_outcome:
  "fst (sphereSphereIntersect s2 tf2 s1 tf1) = fst (sphereSphereIntersect s1 tf1 s2 tf2)"
  using norm3_vsub_commute [of "translation tf1" "translation tf2"]
  by (simp add: sphereSphereIntersect_def Let_def add.commute)

lemma shapeDistance_SphereSphere_swap:
  "shapeDistance_SphereSphere s2 tf2 s1 tf1 = shapeDistance_SphereSphere s1 tf1 s2 tf2"
  using norm3_vsub_commute [of "translation tf1" "translation tf2"]
  by (simp add: shapeDistance_SphereSphere_def Let_def add.commute)

lemma vneg_vdiv_vsub: "vneg (vdiv (vsub a b) d) = vdiv (vsub b a) d"
  by (cases a; cases b) (simp add: minus_divide_left)

lemma weighted_midpoint_swap:
  fixes r1 r2 :: real
  assumes "r1 + r2 \<noteq> 0"
  shows "y + (x - y) * (r2 / (r2 + r1)) = x + (y - x) * (r1 / (r1 + r2))"
proof -
  have "y + (x - y) * (r2 / (r2 + r1)) = (y * (r1 + r2) + (x - y) * r2) / (r1 + r2)"
    using assms by (simp add: field_simps)
  also have "\<dots> = (x * (r1 + r2) + (y - x) * r1) / (r1 + r2)"
    by (simp add: algebra_simps)
  also have "\<dots> = x + (y - x) * (r1 / (r1 + r2))"
    using assms by (simp add: field_simps)
  finally show ?thesis .
qed

lemma contact_pos_swap:
  assumes "r1 + r2 \<noteq> (0::real)"
  shows "vadd b (vscale (vsub a b) (r2 / (r2 + r1)))
           = vadd a (vscale (vsub b a) (r1 / (r1 + r2)))"
  using weighted_midpoint_swap [OF assms]
  by (cases a; cases b) simp

lemma sphereSphereIntersect_swap_contacts:
  assumes "radius s1 + radius s2 \<noteq> 0"
  shows "snd (sphereSphereIntersect s2 tf2 s1 tf1)
           = map (\<lambda>c. c\<lparr>normal := vneg (normal c)\<rparr>) (snd (sphereSphereIntersect s1 tf1 s2 tf2))"
  using norm3_vsub_commute [of "translation tf1" "translation tf2"]
    contact_pos_swap [OF assms, of "translation tf2" "translation tf1"]
  by (auto simp: sphereSphereIntersect_def Let_def add.commute vneg_vdiv_vsub Zero3_def)

lemma dot_mat_vec_orthogonal:
  assumes "orthogonal R"
  shows "dot (mat_vec R v) (mat_vec R v) = dot v v"
proof -
  obtain a b c d e f g h i where R: "R = ((a, b, c), (d, e, f), (g, h, i))"
    by (metis prod_cases3)
  obtain x y z where v: "v = (x, y, z)"
    using prod_cases3 by blast
  from assms have o:
    "a * a + d * d + g * g = 1" "b * b + e * e + h * h = 1" "c * c + f * f + i * i = 1"
    "a * b + d * e + g * h = 0" "a * c + d * f + g * i = 0" "b * c + e * f + h * i = 0"
    by (simp_all add: orthogonal_def R MatrixIdentity_def)
  have "(a * x + b * y + c * z) * (a * x + b * y + c * z)
      + (d * x + e * y + f * z) * (d * x + e * y + f * z)
      + (g * x + h * y + i * z) * (g * x + h * y + i * z)
      = (a * a + d * d + g * g) * (x * x) + (b * b + e * e + h * h) * (y * y)
        + (c * c + f * f + i * i) * (z * z)
        + 2 * (a * b + d * e + g * h) * (x * y) + 2 * (a * c + d * f + g * i) * (x * z)
        + 2 * (b * c + e * f + h * i) * (y * z)"
    by (simp add: algebra_simps)
  also have "\<dots> = x * x + y * y + z * z"
    by (simp add: o)
  finally show ?thesis
    by (simp add: R v)
qed

lemma norm3_mat_vec_orthogonal: "orthogonal R \<Longrightarrow> norm3 (mat_vec R v) = norm3 v"
  by (simp add: norm3_def dot_mat_vec_orthogonal)

lemma mat_vec_vsub: "mat_vec R (vsub a b) = vsub (mat_vec R a) (mat_vec R b)"
  by (cases R rule: prod_cases3; cases a; cases b; cases "fst R"; cases "fst (snd R)"; cases "snd (snd R)")
     (simp add: algebra_simps)


lemma mat_vec_vdiv: "mat_vec R (vdiv v s) = vdiv (mat_vec R v) s"
proof -
  obtain a b c d e f g h i where R: "R = ((a, b, c), (d, e, f), (g, h, i))"
    by (metis prod_cases3)
  obtain x y z where v: "v = (x, y, z)"
    using prod_cases3 by blast
  show ?thesis
    by (simp add: R v add_divide_distrib)
qed

lemma mat_vec_vscale: "mat_vec R (vscale v s) = vscale (mat_vec R v) s"
proof -
  obtain a b c d e f g h i where R: "R = ((a, b, c), (d, e, f), (g, h, i))"
    by (metis prod_cases3)
  obtain x y z where v: "v = (x, y, z)"
    using prod_cases3 by blast
  show ?thesis
    by (simp add: R v algebra_simps)
qed

lemma mat_vec_vadd: "mat_vec R (vadd a b) = vadd (mat_vec R a) (mat_vec R b)"
proof -
  obtain r0 r1 r2 where R: "R = (r0, r1, r2)"
    using prod_cases3 by blast
  show ?thesis
    by (cases a; cases b; cases r0; cases r1; cases r2) (simp add: R algebra_simps)
qed

lemma vsub_transform: "vsub (transform T a) (transform T b) = mat_vec (linear T) (vsub a b)"
proof -
  obtain p q r where m: "mat_vec (linear T) a = (p, q, r)" using prod_cases3 by blast
  obtain p' q' r' where m': "mat_vec (linear T) b = (p', q', r')" using prod_cases3 by blast
  show ?thesis
    by (cases "translation T") (simp add: transform_def mat_vec_vsub m m')
qed

lemma transform_vadd: "transform T (vadd a b) = vadd (transform T a) (mat_vec (linear T) b)"
proof -
  obtain p q r where m: "mat_vec (linear T) a = (p, q, r)" using prod_cases3 by blast
  obtain p' q' r' where m': "mat_vec (linear T) b = (p', q', r')" using prod_cases3 by blast
  show ?thesis
    by (cases "translation T") (simp add: transform_def mat_vec_vadd m m')
qed

lemma norm3_eq_0_iff: "norm3 (vsub a b) = 0 \<longleftrightarrow> a = b"
proof -
  obtain a1 a2 a3 where a: "a = (a1, a2, a3)" using prod_cases3 by blast
  obtain b1 b2 b3 where b: "b = (b1, b2, b3)" using prod_cases3 by blast
  have "(a1 - b1) * (a1 - b1) + (a2 - b2) * (a2 - b2) + (a3 - b3) * (a3 - b3) = 0
        \<longleftrightarrow> a1 = b1 \<and> a2 = b2 \<and> a3 = b3"
    by (simp add: add_nonneg_eq_0_iff)
  then show ?thesis
    by (simp add: a b norm3_def)
qed

lemma transform_eq_iff:
  assumes "orthogonal (linear T)"
  shows "transform T a = transform T b \<longleftrightarrow> a = b"
proof
  assume "transform T a = transform T b"
  then have "norm3 (vsub (transform T a) (transform T b)) = 0"
    by (simp add: norm3_eq_0_iff)
  then have "norm3 (vsub a b) = 0"
    using assms by (simp add: vsub_transform norm3_mat_vec_orthogonal)
  then show "a = b"
    by (simp add: norm3_eq_0_iff)
qed simp

text \<open>
  Moving both spheres by a common rigid transform keeps the outcome and the depth,
  turns the normal by the rotation and moves the contact position by the transform.
\<close>

lemma sphereSphereIntersect_rigid:
  assumes "orthogonal (linear T)"
  shows "sphereSphereIntersect s1 (compose T tf1) s2 (compose T tf2)
           = (fst (sphereSphereIntersect s1 tf1 s2 tf2),
              map (\<lambda>c. \<lparr>normal = mat_vec (linear T) (normal c),
                         pos = transform T (pos c),
                         penetration_depth = penetration_depth c\<rparr>)
                  (snd (sphereSphereIntersect s1 tf1 s2 tf2)))"
proof -
  have len: "norm3 (vsub (transform T (translation tf2)) (transform T (translation tf1)))
               = norm3 (vsub (translation tf2) (translation tf1))"
    using assms by (simp add: vsub_transform norm3_mat_vec_orthogonal)
  have z: "mat_vec (linear T) Zero3 = Zero3"
    by (cases "linear T" rule: prod_cases3; cases "fst (linear T)"; cases "fst (snd (linear T))";
        cases "snd (snd (linear T))") (simp add: Zero3_def)
  show ?thesis
    using assms
    by (simp add: sphereSphereIntersect_def compose_def Let_def len transform_eq_iff
        vsub_transform mat_vec_vdiv mat_vec_vscale transform_vadd z norm3_mat_vec_orthogonal)
qed

text \<open>
  For two spheres the distance operation succeeds exactly when the collision routine
  reports no collision; a success carries a positive scalar and a failure a negative
  one.
\<close>

lemma shapeDistance_SphereSphere_success_iff:
  "fst (shapeDistance_SphereSphere s1 tf1 s2 tf2) = (\<not> fst (sphereSphereIntersect s1 tf1 s2 tf2))"
  using norm3_vsub_commute [of "translation tf1" "translation tf2"]
  by (auto simp: shapeDistance_SphereSphere_def sphereSphereIntersect_def Let_def)

lemma shapeDistance_SphereSphere_sign:
  "(if fst (shapeDistance_SphereSphere s1 tf1 s2 tf2)
    then 0 < snd (shapeDistance_SphereSphere s1 tf1 s2 tf2)
    else snd (shapeDistance_SphereSphere s1 tf1 s2 tf2) < 0)"
  by (simp add: shapeDistance_SphereSphere_def Let_def)

end
